theory Spec2Isabelle
  imports Main "HOL-Library.Word"
begin

unbundle bit_operations_syntax

section \<open>Intervals of the parameter framework\<close>

text \<open>
  \<^verbatim>\<open>struct snd_interval\<close> of the host parameter framework: two \<^verbatim>\<open>unsigned int\<close>
  bounds and four one-bit flags. The driver names \<^verbatim>\<open>min\<close>, \<^verbatim>\<open>max\<close> and
  \<^verbatim>\<open>integer\<close> in its initialisers; the fields carry the prefix \<open>i_\<close> here because
  \<open>min\<close> and \<open>max\<close> are constants of HOL.
\<close>

record snd_interval =
  i_min :: "32 word"
  i_max :: "32 word"
  i_openmin :: bool
  i_openmax :: bool
  i_integer :: bool
  i_empty :: bool

definition UINT_MAX :: "32 word" where
  "UINT_MAX = - 1"

text \<open>
  Modelled from the spec: \<^verbatim>\<open>snd_interval_test\<close> belongs to the host parameter framework
  (\<^verbatim>\<open>sound/pcm_params.h\<close>) and is not among the driver sources. The spec's interval is the
  range \<open>[min, max]\<close>; a value lies in it when it is not below \<open>min\<close> and not above
  \<open>max\<close>, and an end point flagged open is left out. With both flags clear this is the
  closed range of the spec (lemma \<open>snd_interval_test_closed\<close>).
\<close>

definition snd_interval_test :: "snd_interval \<Rightarrow> 32 word \<Rightarrow> bool" where
  "snd_interval_test i val \<longleftrightarrow>
     \<not> (i_min i > val \<or> (i_min i = val \<and> i_openmin i) \<or>
        i_max i < val \<or> (i_max i = val \<and> i_openmax i))"

section \<open>The mode table\<close>

text \<open>
  \<^verbatim>\<open>struct snd_motu_packet_format\<close>: per mode, the fixed and the differed number of
  PCM chunks. Both arrays are \<^verbatim>\<open>unsigned char\<close> arrays indexed by mode; only these two
  fields are read by the PCM code.
\<close>

record snd_motu_packet_format =
  fixed_part_pcm_chunks :: "8 word list"
  differed_part_pcm_chunks :: "8 word list"

text \<open>
  The expression
  \<^verbatim>\<open>formats->fixed_part_pcm_chunks[mode] + formats->differed_part_pcm_chunks[mode]\<close>,
  assigned to an \<^verbatim>\<open>unsigned int\<close>. C promotes both bytes before adding, so the sum
  is exact. A read past the end of either array is undefined in C: \<open>None\<close> here.
\<close>

definition pcm_chunks :: "snd_motu_packet_format \<Rightarrow> nat \<Rightarrow> 32 word option" where
  "pcm_chunks formats mode =
     (if mode < length (fixed_part_pcm_chunks formats) \<and>
         mode < length (differed_part_pcm_chunks formats)
      then Some (ucast (fixed_part_pcm_chunks formats ! mode) +
                 ucast (differed_part_pcm_chunks formats ! mode))
      else None)"

text \<open>
  The loop \<^verbatim>\<open>for (i = 0; i < ARRAY_SIZE(snd_motu_clock_rates); ++i)\<close> with a body that
  may read out of range: the body is run for each index in turn, and the first undefined
  read ends the run.
\<close>

primrec for_each :: "(nat \<Rightarrow> 'a \<Rightarrow> 'a option) \<Rightarrow> nat list \<Rightarrow> 'a \<Rightarrow> 'a option" where
  "for_each body [] acc = Some acc"
| "for_each body (i # is) acc =
     (case body i acc of None \<Rightarrow> None | Some acc' \<Rightarrow> for_each body is acc')"

section \<open>Constraint solver\<close>

text \<open>
  The table \<^verbatim>\<open>snd_motu_clock_rates\<close> is declared outside the PCM code; it is the
  first argument of every function that walks it. Entry \<open>i\<close> belongs to mode
  \<open>i div 2\<close>.
\<close>

definition rate_constraint_body ::
  "32 word list \<Rightarrow> snd_motu_packet_format \<Rightarrow> snd_interval \<Rightarrow> nat \<Rightarrow> snd_interval \<Rightarrow>
   snd_interval option" where
  "rate_constraint_body snd_motu_clock_rates formats c i rates =
     (let rate = snd_motu_clock_rates ! i;
          mode = i div 2
      in case pcm_chunks formats mode of
           None \<Rightarrow> None
         | Some pcm_channels \<Rightarrow>
             if \<not> snd_interval_test c pcm_channels then Some rates
             else Some (rates\<lparr>i_min := min (i_min rates) rate,
                               i_max := max (i_max rates) rate\<rparr>))"

text \<open>
  The interval \<^verbatim>\<open>rates\<close> of \<^verbatim>\<open>motu_rate_constraint\<close> when the loop is left, that is
  the second argument of the closing \<^verbatim>\<open>snd_interval_refine(r, &rates)\<close>.
\<close>

definition motu_rate_constraint_rates ::
  "32 word list \<Rightarrow> snd_motu_packet_format \<Rightarrow> snd_interval \<Rightarrow> snd_interval option" where
  "motu_rate_constraint_rates snd_motu_clock_rates formats c =
     for_each (rate_constraint_body snd_motu_clock_rates formats c)
       [0..<length snd_motu_clock_rates]
       \<lparr>i_min = UINT_MAX, i_max = 0, i_openmin = False, i_openmax = False,
        i_integer = True, i_empty = False\<rparr>"

text \<open>
  \<^verbatim>\<open>motu_rate_constraint\<close>: the rule hands the accumulated interval and the rate
  interval \<open>r\<close> of the parameters to \<^verbatim>\<open>snd_interval_refine\<close> of the framework, taken
  as an argument, and returns what that returns.
\<close>

definition motu_rate_constraint ::
  "(snd_interval \<Rightarrow> snd_interval \<Rightarrow> 'r) \<Rightarrow> 32 word list \<Rightarrow> snd_motu_packet_format \<Rightarrow>
   snd_interval \<Rightarrow> snd_interval \<Rightarrow> 'r option" where
  "motu_rate_constraint snd_interval_refine snd_motu_clock_rates formats c r =
     map_option (snd_interval_refine r)
       (motu_rate_constraint_rates snd_motu_clock_rates formats c)"

definition channels_constraint_body ::
  "32 word list \<Rightarrow> snd_motu_packet_format \<Rightarrow> snd_interval \<Rightarrow> nat \<Rightarrow> snd_interval \<Rightarrow>
   snd_interval option" where
  "channels_constraint_body snd_motu_clock_rates formats r i channels =
     (let rate = snd_motu_clock_rates ! i;
          mode = i div 2
      in if \<not> snd_interval_test r rate then Some channels
         else case pcm_chunks formats mode of
                None \<Rightarrow> None
              | Some pcm_channels \<Rightarrow>
                  Some (channels\<lparr>i_min := min (i_min channels) pcm_channels,
                                  i_max := max (i_max channels) pcm_channels\<rparr>))"

definition motu_channels_constraint_channels ::
  "32 word list \<Rightarrow> snd_motu_packet_format \<Rightarrow> snd_interval \<Rightarrow> snd_interval option" where
  "motu_channels_constraint_channels snd_motu_clock_rates formats r =
     for_each (channels_constraint_body snd_motu_clock_rates formats r)
       [0..<length snd_motu_clock_rates]
       \<lparr>i_min = UINT_MAX, i_max = 0, i_openmin = False, i_openmax = False,
        i_integer = True, i_empty = False\<rparr>"

definition motu_channels_constraint ::
  "(snd_interval \<Rightarrow> snd_interval \<Rightarrow> 'r) \<Rightarrow> 32 word list \<Rightarrow> snd_motu_packet_format \<Rightarrow>
   snd_interval \<Rightarrow> snd_interval \<Rightarrow> 'r option" where
  "motu_channels_constraint snd_interval_refine snd_motu_clock_rates formats r c =
     map_option (snd_interval_refine c)
       (motu_channels_constraint_channels snd_motu_clock_rates formats r)"

text \<open>The closed interval \<open>[lo, hi]\<close> of integral values.\<close>

definition closed_interval :: "32 word \<Rightarrow> 32 word \<Rightarrow> snd_interval" where
  "closed_interval lo hi =
     \<lparr>i_min = lo, i_max = hi, i_openmin = False, i_openmax = False,
      i_integer = True, i_empty = False\<rparr>"

text \<open>
  The table of the spec's scenario: mode 0 with 2 fixed and 0 variable channels at
  44100 and 48000, mode 1 with 2 fixed and 2 variable channels at 88200 and 96000.
\<close>

definition scenario_rates :: "32 word list" where
  "scenario_rates = [44100, 48000, 88200, 96000]"

definition scenario_formats :: snd_motu_packet_format where
  "scenario_formats =
     \<lparr>fixed_part_pcm_chunks = [2, 2], differed_part_pcm_chunks = [0, 2]\<rparr>"

subsection \<open>The solver as the spec words it\<close>

text \<open>
  The reads of the loops stay inside both chunk arrays when the rate table has at most
  two entries per mode of either array.
\<close>

definition table_ok :: "32 word list \<Rightarrow> snd_motu_packet_format \<Rightarrow> bool" where
  "table_ok snd_motu_clock_rates formats \<longleftrightarrow>
     length snd_motu_clock_rates \<le> 2 * length (fixed_part_pcm_chunks formats) \<and>
     length snd_motu_clock_rates \<le> 2 * length (differed_part_pcm_chunks formats)"

text \<open>The total channel count of a mode: its fixed part plus its differed part.\<close>

definition total_channels :: "snd_motu_packet_format \<Rightarrow> nat \<Rightarrow> 32 word" where
  "total_channels formats mode =
     ucast (fixed_part_pcm_chunks formats ! mode) +
     ucast (differed_part_pcm_chunks formats ! mode)"

text \<open>
  The Mode Table as the list of its (rate, total channel count) pairs, one pair for
  each rate, in the order of the rate table.
\<close>

definition mode_table ::
  "32 word list \<Rightarrow> snd_motu_packet_format \<Rightarrow> (32 word \<times> 32 word) list" where
  "mode_table snd_motu_clock_rates formats =
     map (\<lambda>i. (snd_motu_clock_rates ! i, total_channels formats (i div 2)))
       [0..<length snd_motu_clock_rates]"

text \<open>The empty sentinel: \<open>min = UINT_MAX\<close>, \<open>max = 0\<close>, integral.\<close>

definition empty_sentinel :: snd_interval where
  "empty_sentinel =
     \<lparr>i_min = UINT_MAX, i_max = 0, i_openmin = False, i_openmax = False,
      i_integer = True, i_empty = False\<rparr>"

text \<open>
  The interval spanned by a list of values: from their minimum to their maximum, and
  the empty sentinel when there is no value.
\<close>

definition span_of :: "32 word list \<Rightarrow> snd_interval" where
  "span_of vs =
     (if vs = [] then empty_sentinel
      else empty_sentinel\<lparr>i_min := Min (set vs), i_max := Max (set vs)\<rparr>)"

text \<open>
  \<open>refineRateGivenChannels\<close> of the spec: the span of the rates of all pairs whose
  channel count lies in the candidate channel interval.
\<close>

definition refineRateGivenChannels ::
  "snd_interval \<Rightarrow> (32 word \<times> 32 word) list \<Rightarrow> snd_interval" where
  "refineRateGivenChannels c tbl =
     span_of (map fst (filter (\<lambda>(rate, channels). snd_interval_test c channels) tbl))"

text \<open>
  \<open>refineChannelsGivenRate\<close> of the spec: the span of the channel counts of all pairs
  whose rate lies in the candidate rate interval.
\<close>

definition refineChannelsGivenRate ::
  "snd_interval \<Rightarrow> (32 word \<times> 32 word) list \<Rightarrow> snd_interval" where
  "refineChannelsGivenRate r tbl =
     span_of (map snd (filter (\<lambda>(rate, channels). snd_interval_test r rate) tbl))"

text \<open>
  A table of six rates in three modes, with 18, 14 and 2 channels in the modes.
\<close>

definition six_rates :: "32 word list" where
  "six_rates = [44100, 48000, 88200, 96000, 176400, 192000]"

definition three_mode_formats :: snd_motu_packet_format where
  "three_mode_formats =
     \<lparr>fixed_part_pcm_chunks = [10, 10, 2], differed_part_pcm_chunks = [8, 4, 0]\<rparr>"

section \<open>Capability window\<close>

text \<open>
  The fields of \<^verbatim>\<open>struct snd_pcm_hardware\<close> that the PCM code writes. The field
  \<^verbatim>\<open>formats\<close> is \<open>hw_formats\<close> here, apart from the packet formats of the device.
\<close>

record snd_pcm_hardware =
  hw_formats :: "64 word"
  rates :: "32 word"
  rate_min :: "32 word"
  rate_max :: "32 word"
  channels_min :: "32 word"
  channels_max :: "32 word"

text \<open>
  The body of the loop of \<^verbatim>\<open>limit_channels_and_rates\<close>. The framework's
  \<^verbatim>\<open>snd_pcm_rate_to_rate_bit\<close>, which maps a rate to its bit of the supported-rates
  mask, is an argument.
\<close>

definition limit_body ::
  "(32 word \<Rightarrow> 32 word) \<Rightarrow> 32 word list \<Rightarrow> snd_motu_packet_format \<Rightarrow> nat \<Rightarrow>
   snd_pcm_hardware \<Rightarrow> snd_pcm_hardware option" where
  "limit_body snd_pcm_rate_to_rate_bit snd_motu_clock_rates formats i hw =
     (let rate = snd_motu_clock_rates ! i;
          mode = i div 2
      in case pcm_chunks formats mode of
           None \<Rightarrow> None
         | Some pcm_channels \<Rightarrow>
             if pcm_channels = 0 then Some hw
             else Some (hw\<lparr>rates := rates hw OR snd_pcm_rate_to_rate_bit rate,
                            channels_min := min (channels_min hw) pcm_channels,
                            channels_max := max (channels_max hw) pcm_channels\<rparr>))"

text \<open>
  \<^verbatim>\<open>limit_channels_and_rates\<close>. Its argument \<^verbatim>\<open>motu\<close> is not used. The closing
  \<^verbatim>\<open>snd_pcm_limit_hw_rates(runtime)\<close> of the framework determines \<^verbatim>\<open>rate_min\<close> and
  \<^verbatim>\<open>rate_max\<close> from the hardware description; it is an argument that returns the two
  values to store.
\<close>

definition limit_channels_and_rates ::
  "(32 word \<Rightarrow> 32 word) \<Rightarrow> (snd_pcm_hardware \<Rightarrow> 32 word \<times> 32 word) \<Rightarrow>
   32 word list \<Rightarrow> snd_motu_packet_format \<Rightarrow> snd_pcm_hardware \<Rightarrow>
   snd_pcm_hardware option" where
  "limit_channels_and_rates snd_pcm_rate_to_rate_bit snd_pcm_limit_hw_rates
       snd_motu_clock_rates formats hw =
     (case for_each (limit_body snd_pcm_rate_to_rate_bit snd_motu_clock_rates formats)
             [0..<length snd_motu_clock_rates]
             (hw\<lparr>channels_min := UINT_MAX, channels_max := 0\<rparr>) of
        None \<Rightarrow> None
      | Some hw \<Rightarrow>
          (case snd_pcm_limit_hw_rates hw of
             (lo, hi) \<Rightarrow> Some (hw\<lparr>rate_min := lo, rate_max := hi\<rparr>)))"

text \<open>The entries of the mode table with a non-zero total channel count.\<close>

definition nonzero_entries ::
  "(32 word \<times> 32 word) list \<Rightarrow> (32 word \<times> 32 word) list" where
  "nonzero_entries tbl = filter (\<lambda>(rate, channels). channels \<noteq> 0) tbl"

text \<open>The mask \<open>m0\<close> with the rate bit of every entry of a table set.\<close>

definition rates_mask ::
  "(32 word \<Rightarrow> 32 word) \<Rightarrow> (32 word \<times> 32 word) list \<Rightarrow> 32 word \<Rightarrow> 32 word" where
  "rates_mask bit_of tbl m0 = fold (\<lambda>(rate, channels) m. m OR bit_of rate) tbl m0"

text \<open>
  Sample arguments: the rate bits of the six rates (any other rate has the bit of a
  rate that is not a standard one), a table whose third mode has no channel, and a
  hardware description with every field zero.
\<close>

definition sample_rate_bit :: "32 word \<Rightarrow> 32 word" where
  "sample_rate_bit rate =
     (if rate = 44100 then 0x40 else if rate = 48000 then 0x80
      else if rate = 88200 then 0x200 else if rate = 96000 then 0x400
      else if rate = 176400 then 0x800 else if rate = 192000 then 0x1000
      else 0x80000000)"

definition two_of_three_formats :: snd_motu_packet_format where
  "two_of_three_formats =
     \<lparr>fixed_part_pcm_chunks = [2, 2, 0], differed_part_pcm_chunks = [0, 2, 0]\<rparr>"

definition zero_hw :: snd_pcm_hardware where
  "zero_hw = \<lparr>hw_formats = 0, rates = 0, rate_min = 0, rate_max = 0,
              channels_min = 0, channels_max = 0\<rparr>"

section \<open>Shared device state\<close>

text \<open>
  The part of the per-device state that both drivers share. The drivers name the
  counter \<^verbatim>\<open>substreams_counter\<close> (an \<^verbatim>\<open>atomic_t\<close> in the Dice driver, an
  \<^verbatim>\<open>unsigned int\<close> in the MOTU driver: 32 bits that wrap in both). The other fields
  are the spec's state, since the stream and lock code of the drivers is not among the
  sources: \<open>token_outstanding\<close> for the Exclusivity Token, \<open>running\<close> and
  \<open>committed_rate\<close> for the duplex stream, and \<open>transport_stops\<close>, the number of times
  the transport has been told to tear the stream down.
\<close>

record duplex_device =
  substreams_counter :: "32 word"
  token_outstanding :: bool
  running :: bool
  committed_rate :: "32 word"
  transport_stops :: nat

type_synonym snd_dice = duplex_device

definition EBUSY :: int where
  "EBUSY = 16"

datatype acquired = Token | Busy

text \<open>
  Modelled from the spec: the Exclusivity Lock (\<^verbatim>\<open>snd_dice_stream_lock_try\<close>,
  \<^verbatim>\<open>snd_motu_stream_lock_try\<close> and the two \<^verbatim>\<open>..._lock_release\<close>) is not among
  the sources. Spec 4.4: \<open>tryAcquire() -> Token | Busy\<close>, \<open>release(Token)\<close>; at most
  one token is outstanding per device, and an attempt made while one is outstanding
  fails at once with \<open>Busy\<close>.
\<close>

definition tryAcquire :: "bool \<Rightarrow> acquired \<times> bool" where
  "tryAcquire outstanding = (if outstanding then (Busy, outstanding) else (Token, True))"

definition release :: "bool \<Rightarrow> bool" where
  "release outstanding = False"

text \<open>
  Modelled from the spec: the lock as the handlers call it, with \<open>Busy\<close> surfaced as
  the negative error code \<^verbatim>\<open>-EBUSY\<close> and success as 0.
\<close>

definition stream_lock_try ::
  "'a duplex_device_scheme \<Rightarrow> int \<times> 'a duplex_device_scheme" where
  "stream_lock_try dev =
     (case tryAcquire (token_outstanding dev) of
        (Busy, t) \<Rightarrow> (- EBUSY, dev)
      | (Token, t) \<Rightarrow> (0, dev\<lparr>token_outstanding := t\<rparr>))"

text \<open>
  Modelled from the spec: \<open>release(Token)\<close> as the handlers call it
  (\<^verbatim>\<open>snd_dice_stream_lock_release\<close>, \<^verbatim>\<open>snd_motu_stream_lock_release\<close>, not among the
  sources): afterwards no token is outstanding.
\<close>

definition stream_lock_release :: "'a duplex_device_scheme \<Rightarrow> 'a duplex_device_scheme" where
  "stream_lock_release dev = dev\<lparr>token_outstanding := release (token_outstanding dev)\<rparr>"

text \<open>
  Modelled from the spec: \<open>ensureStarted\<close> of the Duplex Lifecycle Manager
  (\<^verbatim>\<open>snd_dice_stream_start_duplex\<close>, \<^verbatim>\<open>snd_motu_stream_start_duplex\<close>), not among the
  sources. Spec 4.5: a no-op success when already running; otherwise the transport is
  asked to start at the requested rate (\<open>startDuplex\<close>, a negative result is its
  error); on success \<open>running\<close> and \<open>committedRate\<close> are set, on failure the state is
  left unchanged and the transport's error is returned.
\<close>

definition stream_start_duplex ::
  "(32 word \<Rightarrow> int) \<Rightarrow> 32 word \<Rightarrow> 'a duplex_device_scheme \<Rightarrow>
   int \<times> 'a duplex_device_scheme" where
  "stream_start_duplex startDuplex rate dev =
     (if running dev then (0, dev)
      else let err = startDuplex rate
           in if err < 0 then (err, dev)
              else (0, dev\<lparr>running := True, committed_rate := rate\<rparr>))"

text \<open>
  Modelled from the spec: \<open>ensureStopped\<close> (\<^verbatim>\<open>snd_dice_stream_stop_duplex\<close>,
  \<^verbatim>\<open>snd_motu_stream_stop_duplex\<close>), not among the sources. Spec 4.5: it decrements
  nothing itself; it inspects the counter, and only when that is zero it tells the
  transport to tear down both directions and clears \<open>running\<close>.
\<close>

definition stream_stop_duplex :: "'a duplex_device_scheme \<Rightarrow> 'a duplex_device_scheme" where
  "stream_stop_duplex dev =
     (if substreams_counter dev = 0
      then dev\<lparr>running := False, transport_stops := Suc (transport_stops dev)\<rparr>
      else dev)"

section \<open>Dice: MIDI substreams\<close>

abbreviation snd_dice_stream_lock_try :: "snd_dice \<Rightarrow> int \<times> snd_dice" where
  "snd_dice_stream_lock_try \<equiv> stream_lock_try"

abbreviation snd_dice_stream_lock_release :: "snd_dice \<Rightarrow> snd_dice" where
  "snd_dice_stream_lock_release \<equiv> stream_lock_release"

abbreviation snd_dice_stream_start_duplex ::
  "(32 word \<Rightarrow> int) \<Rightarrow> 32 word \<Rightarrow> snd_dice \<Rightarrow> int \<times> snd_dice" where
  "snd_dice_stream_start_duplex \<equiv> stream_start_duplex"

abbreviation snd_dice_stream_stop_duplex :: "snd_dice \<Rightarrow> snd_dice" where
  "snd_dice_stream_stop_duplex \<equiv> stream_stop_duplex"

text \<open>
  \<^verbatim>\<open>atomic_inc\<close> and \<^verbatim>\<open>atomic_dec\<close> on the counter. The MOTU code's
  \<^verbatim>\<open>motu->substreams_counter++\<close> and \<^verbatim>\<open>motu->substreams_counter--\<close> under the
  mutex are the same two updates.
\<close>

definition atomic_inc :: "'a duplex_device_scheme \<Rightarrow> 'a duplex_device_scheme" where
  "atomic_inc dev = dev\<lparr>substreams_counter := substreams_counter dev + 1\<rparr>"

definition atomic_dec :: "'a duplex_device_scheme \<Rightarrow> 'a duplex_device_scheme" where
  "atomic_dec dev = dev\<lparr>substreams_counter := substreams_counter dev - 1\<rparr>"

text \<open>
  \<^verbatim>\<open>capture_open\<close> and \<^verbatim>\<open>playback_open\<close> of \<^verbatim>\<open>dice-midi.c\<close>: the returned pair is
  \<^verbatim>\<open>err\<close> and the device afterwards. The transport is the first argument.
\<close>

definition capture_open :: "(32 word \<Rightarrow> int) \<Rightarrow> snd_dice \<Rightarrow> int \<times> snd_dice" where
  "capture_open startDuplex dice =
     (case snd_dice_stream_lock_try dice of
        (err, dice) \<Rightarrow>
          if err < 0 then (err, dice)
          else let dice = atomic_inc dice
               in case snd_dice_stream_start_duplex startDuplex 0 dice of
                    (err, dice) \<Rightarrow>
                      if err < 0 then (err, snd_dice_stream_lock_release dice)
                      else (err, dice))"

definition playback_open :: "(32 word \<Rightarrow> int) \<Rightarrow> snd_dice \<Rightarrow> int \<times> snd_dice" where
  "playback_open startDuplex dice =
     (case snd_dice_stream_lock_try dice of
        (err, dice) \<Rightarrow>
          if err < 0 then (err, dice)
          else let dice = atomic_inc dice
               in case snd_dice_stream_start_duplex startDuplex 0 dice of
                    (err, dice) \<Rightarrow>
                      if err < 0 then (err, snd_dice_stream_lock_release dice)
                      else (err, dice))"

definition capture_close :: "snd_dice \<Rightarrow> int \<times> snd_dice" where
  "capture_close dice =
     (let dice = atomic_dec dice;
          dice = snd_dice_stream_stop_duplex dice;
          dice = snd_dice_stream_lock_release dice
      in (0, dice))"

definition playback_close :: "snd_dice \<Rightarrow> int \<times> snd_dice" where
  "playback_close dice =
     (let dice = atomic_dec dice;
          dice = snd_dice_stream_stop_duplex dice;
          dice = snd_dice_stream_lock_release dice
      in (0, dice))"

text \<open>The two directions of a substream.\<close>

datatype direction = Capture | Playback

text \<open>A run of close calls on one device, one call for each direction listed.\<close>

primrec midi_closes :: "direction list \<Rightarrow> snd_dice \<Rightarrow> snd_dice" where
  "midi_closes [] dice = dice"
| "midi_closes (d # ds) dice =
     midi_closes ds
       (snd (case d of Capture \<Rightarrow> capture_close dice | Playback \<Rightarrow> playback_close dice))"

definition idle_dice :: snd_dice where
  "idle_dice = \<lparr>substreams_counter = 0, token_outstanding = False, running = False,
                committed_rate = 0, transport_stops = 0\<rparr>"

section \<open>MOTU: PCM substreams\<close>

text \<open>
  \<^verbatim>\<open>struct snd_motu\<close> as the PCM code uses it: the shared part, the device mutex, the
  cached packet formats of both directions, whether a PCM substream is attached to the
  tx and to the rx stream (\<^verbatim>\<open>amdtp_stream_pcm_running\<close>), and how often
  \<^verbatim>\<open>amdtp_stream_pcm_prepare\<close> has run on each stream.
\<close>

record snd_motu = duplex_device +
  mutex_locked :: bool
  tx_packet_formats :: snd_motu_packet_format
  rx_packet_formats :: snd_motu_packet_format
  tx_pcm_running :: bool
  rx_pcm_running :: bool
  tx_pcm_prepares :: nat
  rx_pcm_prepares :: nat

abbreviation snd_motu_stream_lock_try :: "snd_motu \<Rightarrow> int \<times> snd_motu" where
  "snd_motu_stream_lock_try \<equiv> stream_lock_try"

abbreviation snd_motu_stream_lock_release :: "snd_motu \<Rightarrow> snd_motu" where
  "snd_motu_stream_lock_release \<equiv> stream_lock_release"

abbreviation snd_motu_stream_start_duplex ::
  "(32 word \<Rightarrow> int) \<Rightarrow> 32 word \<Rightarrow> snd_motu \<Rightarrow> int \<times> snd_motu" where
  "snd_motu_stream_start_duplex \<equiv> stream_start_duplex"

abbreviation snd_motu_stream_stop_duplex :: "snd_motu \<Rightarrow> snd_motu" where
  "snd_motu_stream_stop_duplex \<equiv> stream_stop_duplex"

definition mutex_lock :: "snd_motu \<Rightarrow> snd_motu" where
  "mutex_lock motu = motu\<lparr>mutex_locked := True\<rparr>"

definition mutex_unlock :: "snd_motu \<Rightarrow> snd_motu" where
  "mutex_unlock motu = motu\<lparr>mutex_locked := False\<rparr>"

text \<open>The runtime states of a PCM substream; the driver reads the state and never writes it.\<close>

datatype snd_pcm_state =
    SNDRV_PCM_STATE_OPEN
  | SNDRV_PCM_STATE_SETUP
  | SNDRV_PCM_STATE_PREPARED
  | SNDRV_PCM_STATE_RUNNING
  | SNDRV_PCM_STATE_XRUN
  | SNDRV_PCM_STATE_DRAINING
  | SNDRV_PCM_STATE_PAUSED
  | SNDRV_PCM_STATE_SUSPENDED
  | SNDRV_PCM_STATE_DISCONNECTED

text \<open>
  The clock sources: the internal one, which the code names, and any other source, told
  apart by a number.
\<close>

datatype snd_motu_clock_source =
    SND_MOTU_CLOCK_SOURCE_INTERNAL
  | SND_MOTU_CLOCK_SOURCE_OTHER nat

text \<open>
  What the collaborators of \<^verbatim>\<open>pcm_open\<close> answer during one call: the rate table, the
  two framework functions of the capability window, the outcome of the refresh of the
  packet formats (its error code and the formats it leaves for tx and rx), the results
  of the two \<^verbatim>\<open>snd_pcm_hw_rule_add\<close> calls and of
  \<^verbatim>\<open>amdtp_motu_add_pcm_hw_constraints\<close>, and the answers of the clock provider (error
  code and value). A negative code is an error.
\<close>

record pcm_open_env =
  clock_rates :: "32 word list"
  rate_to_rate_bit :: "32 word \<Rightarrow> 32 word"
  limit_hw_rates :: "snd_pcm_hardware \<Rightarrow> 32 word \<times> 32 word"
  cache_packet_formats :: "int \<times> snd_motu_packet_format \<times> snd_motu_packet_format"
  hw_rule_add_rate :: int
  hw_rule_add_channels :: int
  add_pcm_hw_constraints :: int
  get_clock_source :: "int \<times> snd_motu_clock_source"
  get_clock_rate :: "int \<times> 32 word"

text \<open>\<^verbatim>\<open>SNDRV_PCM_FMTBIT_S32\<close>: the bit of the 32-bit sample format (little endian).\<close>

definition SNDRV_PCM_FMTBIT_S32 :: "64 word" where
  "SNDRV_PCM_FMTBIT_S32 = push_bit 10 1"

text \<open>
  \<^verbatim>\<open>init_hw_info\<close>: \<open>None\<close> when the capability window reads out of range, otherwise
  \<^verbatim>\<open>err\<close> and the hardware description.
\<close>

definition init_hw_info ::
  "pcm_open_env \<Rightarrow> snd_motu \<Rightarrow> direction \<Rightarrow> snd_pcm_hardware \<Rightarrow>
   (int \<times> snd_pcm_hardware) option" where
  "init_hw_info env motu stream hw =
     (let hw = hw\<lparr>hw_formats := SNDRV_PCM_FMTBIT_S32\<rparr>;
          formats = (if stream = Capture then tx_packet_formats motu
                     else rx_packet_formats motu)
      in case limit_channels_and_rates (rate_to_rate_bit env) (limit_hw_rates env)
                (clock_rates env) formats hw of
           None \<Rightarrow> None
         | Some hw \<Rightarrow>
             let err = hw_rule_add_rate env
             in if err < 0 then Some (err, hw)
                else let err = hw_rule_add_channels env
                     in if err < 0 then Some (err, hw)
                        else Some (add_pcm_hw_constraints env, hw))"

text \<open>The exit \<^verbatim>\<open>err_locked\<close> of \<^verbatim>\<open>pcm_open\<close>.\<close>

definition err_locked ::
  "int \<Rightarrow> snd_motu \<Rightarrow> snd_pcm_hardware \<Rightarrow> int \<times> snd_motu \<times> snd_pcm_hardware" where
  "err_locked err motu hw =
     (let motu = mutex_unlock motu;
          motu = snd_motu_stream_lock_release motu
      in (err, motu, hw))"

text \<open>
  \<^verbatim>\<open>pcm_open\<close>: \<^verbatim>\<open>err\<close>, the device and the hardware description of the substream's
  runtime afterwards. \<^verbatim>\<open>snd_pcm_set_sync\<close> touches neither and is left out.
\<close>

definition pcm_open ::
  "pcm_open_env \<Rightarrow> direction \<Rightarrow> snd_motu \<Rightarrow> snd_pcm_hardware \<Rightarrow>
   (int \<times> snd_motu \<times> snd_pcm_hardware) option" where
  "pcm_open env stream motu hw =
     (case snd_motu_stream_lock_try motu of
        (err, motu) \<Rightarrow>
          if err < 0 then Some (err, motu, hw)
          else
            let motu = mutex_lock motu
            in case cache_packet_formats env of
                 (err, tx, rx) \<Rightarrow>
                   let motu = motu\<lparr>tx_packet_formats := tx, rx_packet_formats := rx\<rparr>
                   in if err < 0 then Some (err_locked err motu hw)
                      else
                        case init_hw_info env motu stream hw of
                          None \<Rightarrow> None
                        | Some (err, hw) \<Rightarrow>
                            if err < 0 then Some (err_locked err motu hw)
                            else
                              case get_clock_source env of
                                (err, src) \<Rightarrow>
                                  if err < 0 then Some (err_locked err motu hw)
                                  else if src \<noteq> SND_MOTU_CLOCK_SOURCE_INTERNAL \<or>
                                          tx_pcm_running motu \<or> rx_pcm_running motu
                                  then
                                    case get_clock_rate env of
                                      (err, rate) \<Rightarrow>
                                        if err < 0 then Some (err_locked err motu hw)
                                        else Some (err, mutex_unlock motu,
                                                   hw\<lparr>rate_min := rate, rate_max := rate\<rparr>)
                                  else Some (err, mutex_unlock motu, hw))"

definition pcm_close :: "snd_motu \<Rightarrow> int \<times> snd_motu" where
  "pcm_close motu = (0, snd_motu_stream_lock_release motu)"



text \<open>
  \<^verbatim>\<open>capture_hw_free\<close> and \<^verbatim>\<open>playback_hw_free\<close>. The first argument is the result of
  \<^verbatim>\<open>snd_pcm_lib_free_vmalloc_buffer\<close>, which is returned.
\<close>

definition capture_hw_free :: "int \<Rightarrow> snd_pcm_state \<Rightarrow> snd_motu \<Rightarrow> int \<times> snd_motu" where
  "capture_hw_free freed state motu =
     (let motu = mutex_lock motu;
          motu = (if state \<noteq> SNDRV_PCM_STATE_OPEN then atomic_dec motu else motu);
          motu = snd_motu_stream_stop_duplex motu;
          motu = mutex_unlock motu
      in (freed, motu))"

definition playback_hw_free :: "int \<Rightarrow> snd_pcm_state \<Rightarrow> snd_motu \<Rightarrow> int \<times> snd_motu" where
  "playback_hw_free freed state motu =
     (let motu = mutex_lock motu;
          motu = (if state \<noteq> SNDRV_PCM_STATE_OPEN then atomic_dec motu else motu);
          motu = snd_motu_stream_stop_duplex motu;
          motu = mutex_unlock motu
      in (freed, motu))"

text \<open>
  \<^verbatim>\<open>capture_prepare\<close> and \<^verbatim>\<open>playback_prepare\<close>. The first argument is the transport,
  the second \<^verbatim>\<open>substream->runtime->rate\<close>.
\<close>

definition capture_prepare ::
  "(32 word \<Rightarrow> int) \<Rightarrow> 32 word \<Rightarrow> snd_motu \<Rightarrow> int \<times> snd_motu" where
  "capture_prepare startDuplex rate motu =
     (let motu = mutex_lock motu
      in case snd_motu_stream_start_duplex startDuplex rate motu of
           (err, motu) \<Rightarrow>
             let motu = mutex_unlock motu;
                 motu = (if err \<ge> 0 then motu\<lparr>tx_pcm_prepares := Suc (tx_pcm_prepares motu)\<rparr>
                         else motu)
             in (0, motu))"

definition playback_prepare ::
  "(32 word \<Rightarrow> int) \<Rightarrow> 32 word \<Rightarrow> snd_motu \<Rightarrow> int \<times> snd_motu" where
  "playback_prepare startDuplex rate motu =
     (let motu = mutex_lock motu
      in case snd_motu_stream_start_duplex startDuplex rate motu of
           (err, motu) \<Rightarrow>
             let motu = mutex_unlock motu;
                 motu = (if err \<ge> 0 then motu\<lparr>rx_pcm_prepares := Suc (rx_pcm_prepares motu)\<rparr>
                         else motu)
             in (err, motu))"

definition idle_motu :: snd_motu where
  "idle_motu =
     \<lparr>substreams_counter = 0, token_outstanding = False, running = False,
      committed_rate = 0, transport_stops = 0, mutex_locked = False,
      tx_packet_formats = three_mode_formats, rx_packet_formats = three_mode_formats,
      tx_pcm_running = False, rx_pcm_running = False,
      tx_pcm_prepares = 0, rx_pcm_prepares = 0\<rparr>"

definition EIO :: int where
  "EIO = 5"


section \<open>Runs of calls and sample states\<close>

text \<open>\<open>n\<close> attempts to acquire the token in a row, with no release between them.\<close>

primrec attempts :: "nat \<Rightarrow> bool \<Rightarrow> acquired list \<times> bool" where
  "attempts 0 outstanding = ([], outstanding)"
| "attempts (Suc n) outstanding =
     (case tryAcquire outstanding of
        (r, outstanding) \<Rightarrow>
          (case attempts n outstanding of (rs, outstanding) \<Rightarrow> (r # rs, outstanding)))"



definition hw_free_call ::
  "direction \<Rightarrow> int \<Rightarrow> snd_pcm_state \<Rightarrow> snd_motu \<Rightarrow> int \<times> snd_motu" where
  "hw_free_call d freed state motu =
     (case d of Capture \<Rightarrow> capture_hw_free freed state motu
              | Playback \<Rightarrow> playback_hw_free freed state motu)"

text \<open>A run of hw_free calls on one device, each with its direction, result and state.\<close>

primrec hw_frees ::
  "(direction \<times> int \<times> snd_pcm_state) list \<Rightarrow> snd_motu \<Rightarrow> snd_motu" where
  "hw_frees [] motu = motu"
| "hw_frees (f # fs) motu =
     hw_frees fs (snd (hw_free_call (fst f) (fst (snd f)) (snd (snd f)) motu))"

text \<open>
  A MOTU device after one open and one hw_params, before and after the stream has
  been started, and Dice and MOTU devices with two substreams counted and the stream
  running.
\<close>

definition opened_motu :: snd_motu where
  "opened_motu = idle_motu\<lparr>substreams_counter := 1, token_outstanding := True\<rparr>"

definition streaming_motu :: snd_motu where
  "streaming_motu = opened_motu\<lparr>running := True, committed_rate := 48000\<rparr>"

definition two_counted_dice :: snd_dice where
  "two_counted_dice =
     \<lparr>substreams_counter = 2, token_outstanding = True, running = True,
      committed_rate = 48000, transport_stops = 0\<rparr>"

definition two_counted_motu :: snd_motu where
  "two_counted_motu = streaming_motu\<lparr>substreams_counter := 2\<rparr>"

text \<open>
  Collaborators for one \<^verbatim>\<open>pcm_open\<close>: every call succeeds, the clock is internal and
  runs at 48000; and the capability window that \<^verbatim>\<open>init_hw_info\<close> builds from them.
\<close>

definition sample_env :: pcm_open_env where
  "sample_env =
     \<lparr>clock_rates = six_rates, rate_to_rate_bit = sample_rate_bit,
      limit_hw_rates = (\<lambda>hw. (44100, 192000)),
      cache_packet_formats = (0, three_mode_formats, three_mode_formats),
      hw_rule_add_rate = 0, hw_rule_add_channels = 0, add_pcm_hw_constraints = 0,
      get_clock_source = (0, SND_MOTU_CLOCK_SOURCE_INTERNAL),
      get_clock_rate = (0, 48000)\<rparr>"

definition sample_window :: snd_pcm_hardware where
  "sample_window =
     \<lparr>hw_formats = 0x400, rates = 0x1EC0, rate_min = 44100, rate_max = 192000,
      channels_min = 2, channels_max = 18\<rparr>"

section \<open>Properties of the constraint solver\<close>

lemma snd_interval_test_closed:
  "snd_interval_test (closed_interval lo hi) v \<longleftrightarrow> lo \<le> v \<and> v \<le> hi"
  by (auto simp: snd_interval_test_def closed_interval_def)

text \<open>
  C5. On the table of the scenario, the rate rule run on the channel interval \<open>[4, 4]\<close>
  accumulates exactly the rate interval \<open>[88200, 96000]\<close>, and the channel rule run on
  the rate interval \<open>[44100, 44100]\<close> accumulates exactly the channel interval \<open>[2, 2]\<close>.
\<close>

theorem scenario_refinement:
  "motu_rate_constraint_rates scenario_rates scenario_formats (closed_interval 4 4)
     = Some (closed_interval 88200 96000) \<and>
   motu_channels_constraint_channels scenario_rates scenario_formats
     (closed_interval 44100 44100) = Some (closed_interval 2 2)"
  by (simp add: motu_rate_constraint_rates_def motu_channels_constraint_channels_def
      rate_constraint_body_def channels_constraint_body_def pcm_chunks_def
      snd_interval_test_def closed_interval_def scenario_rates_def scenario_formats_def
      UINT_MAX_def upt_conv_Cons)

lemma pcm_chunks_in_range:
  "table_ok T F \<Longrightarrow> i < length T \<Longrightarrow>
   pcm_chunks F (i div 2) = Some (total_channels F (i div 2))"
  by (auto simp: table_ok_def pcm_chunks_def total_channels_def)

lemma fold_min_Min: "fold min vs (a::32 word) = Min (insert a (set vs))"
  using Min.set_eq_fold [of a vs] by simp

lemma fold_max_Max: "fold max vs (a::32 word) = Max (insert a (set vs))"
  using Max.set_eq_fold [of a vs] by simp

lemma span_of_fold:
  "span_of vs = empty_sentinel\<lparr>i_min := fold min vs UINT_MAX, i_max := fold max vs 0\<rparr>"
proof (cases "vs = []")
  case True
  then show ?thesis by (simp add: span_of_def empty_sentinel_def)
next
  case False
  then have "Min (insert UINT_MAX (set vs)) = min UINT_MAX (Min (set vs))"
    by simp
  then have lo: "Min (insert UINT_MAX (set vs)) = Min (set vs)"
    by (simp add: UINT_MAX_def min_absorb2)
  from False have "Max (insert 0 (set vs)) = max 0 (Max (set vs))"
    by simp
  then have hi: "Max (insert 0 (set vs)) = Max (set vs)"
    by (simp add: max_absorb2)
  from False lo hi show ?thesis
    by (simp add: span_of_def fold_min_Min fold_max_Max)
qed

text \<open>
  The rate loop from any accumulator, over any run of indices of the rate table: the
  bounds of the accumulator are folded with the rates of the qualifying pairs.
\<close>

lemma rate_loop:
  assumes "table_ok T F" and "\<forall>i\<in>set is. i < length T"
  shows "for_each (rate_constraint_body T F c) is acc =
    Some (acc\<lparr>i_min := fold min (map fst (filter (\<lambda>(rate, channels). snd_interval_test c channels)
                 (map (\<lambda>i. (T ! i, total_channels F (i div 2))) is))) (i_min acc),
              i_max := fold max (map fst (filter (\<lambda>(rate, channels). snd_interval_test c channels)
                 (map (\<lambda>i. (T ! i, total_channels F (i div 2))) is))) (i_max acc)\<rparr>)"
  using assms(2)
proof (induction "is" arbitrary: acc)
  case Nil
  then show ?case by simp
next
  case (Cons i "is")
  then have "pcm_chunks F (i div 2) = Some (total_channels F (i div 2))"
    using pcm_chunks_in_range [OF assms(1)] by simp
  with Cons show ?case
    by (simp add: rate_constraint_body_def Let_def min.commute max.commute)
qed

lemma channels_loop:
  assumes "table_ok T F" and "\<forall>i\<in>set is. i < length T"
  shows "for_each (channels_constraint_body T F r) is acc =
    Some (acc\<lparr>i_min := fold min (map snd (filter (\<lambda>(rate, channels). snd_interval_test r rate)
                 (map (\<lambda>i. (T ! i, total_channels F (i div 2))) is))) (i_min acc),
              i_max := fold max (map snd (filter (\<lambda>(rate, channels). snd_interval_test r rate)
                 (map (\<lambda>i. (T ! i, total_channels F (i div 2))) is))) (i_max acc)\<rparr>)"
  using assms(2)
proof (induction "is" arbitrary: acc)
  case Nil
  then show ?case by simp
next
  case (Cons i "is")
  then have "pcm_chunks F (i div 2) = Some (total_channels F (i div 2))"
    using pcm_chunks_in_range [OF assms(1)] by simp
  with Cons show ?case
    by (simp add: channels_constraint_body_def Let_def min.commute max.commute)
qed

text \<open>
  C1. For every mode table whose reads are in range and every candidate channel
  interval \<open>c\<close>, the interval that \<^verbatim>\<open>motu_rate_constraint\<close> accumulates is
  \<open>refineRateGivenChannels\<close>: its bounds are the minimum and the maximum of the rates of
  all pairs whose total channel count lies in \<open>c\<close>, and it is the empty sentinel
  (\<open>min = UINT_MAX\<close>, \<open>max = 0\<close>) when no pair qualifies.
\<close>

theorem rate_constraint_refines:
  assumes "table_ok T F"
  shows "motu_rate_constraint_rates T F c =
         Some (refineRateGivenChannels c (mode_table T F))"
  using rate_loop [OF assms, of "[0..<length T]" c empty_sentinel]
  by (simp add: motu_rate_constraint_rates_def refineRateGivenChannels_def mode_table_def
      span_of_fold empty_sentinel_def)

theorem rate_constraint_refines_witness:
  "table_ok six_rates three_mode_formats \<and>
   motu_rate_constraint_rates six_rates three_mode_formats (closed_interval 14 18)
     = Some (closed_interval 44100 96000) \<and>
   motu_rate_constraint_rates six_rates three_mode_formats (closed_interval 3 5)
     = Some empty_sentinel"
  using rate_constraint_refines [of six_rates three_mode_formats "closed_interval 14 18"]
    rate_constraint_refines [of six_rates three_mode_formats "closed_interval 3 5"]
  by (simp add: table_ok_def six_rates_def three_mode_formats_def
      refineRateGivenChannels_def mode_table_def total_channels_def span_of_def
      empty_sentinel_def snd_interval_test_def closed_interval_def UINT_MAX_def
      upt_conv_Cons)

text \<open>
  C2. For every mode table whose reads are in range and every candidate rate interval
  \<open>r\<close>, the interval that \<^verbatim>\<open>motu_channels_constraint\<close> accumulates is
  \<open>refineChannelsGivenRate\<close>: its bounds are the minimum and the maximum of the total
  channel counts of exactly the entries whose rate lies in \<open>r\<close>, and it is the empty
  sentinel when no entry's rate lies in \<open>r\<close>.
\<close>

theorem channels_constraint_refines:
  assumes "table_ok T F"
  shows "motu_channels_constraint_channels T F r =
         Some (refineChannelsGivenRate r (mode_table T F))"
  using channels_loop [OF assms, of "[0..<length T]" r empty_sentinel]
  by (simp add: motu_channels_constraint_channels_def refineChannelsGivenRate_def
      mode_table_def span_of_fold empty_sentinel_def)

theorem channels_constraint_refines_witness:
  "table_ok six_rates three_mode_formats \<and>
   motu_channels_constraint_channels six_rates three_mode_formats
     (closed_interval 48000 96000) = Some (closed_interval 14 18) \<and>
   motu_channels_constraint_channels six_rates three_mode_formats
     (closed_interval 50000 60000) = Some empty_sentinel"
  using
    channels_constraint_refines [of six_rates three_mode_formats "closed_interval 48000 96000"]
    channels_constraint_refines [of six_rates three_mode_formats "closed_interval 50000 60000"]
  by (simp add: table_ok_def six_rates_def three_mode_formats_def
      refineChannelsGivenRate_def mode_table_def total_channels_def span_of_def
      empty_sentinel_def snd_interval_test_def closed_interval_def UINT_MAX_def
      upt_conv_Cons)

lemma rates_mask_keeps: "m AND b = b \<Longrightarrow> rates_mask f tbl m AND b = b"
proof (induction tbl arbitrary: m)
  case Nil
  then show ?case by (simp add: rates_mask_def)
next
  case (Cons e tbl)
  obtain rate ch where e: "e = (rate, ch)" by (cases e)
  have "(m OR f rate) AND b = (m AND b) OR (f rate AND b)"
    by (simp add: bit.conj_disj_distrib2)
  also have "\<dots> = b OR (f rate AND b)"
    using Cons.prems by simp
  also have "\<dots> = b"
    by (simp add: word_ao_absorbs)
  finally have "(m OR f rate) AND b = b" .
  from Cons.IH [OF this] show ?case
    by (simp add: rates_mask_def e)
qed

lemma rates_mask_member:
  "(rate, ch) \<in> set tbl \<Longrightarrow> rates_mask f tbl m AND f rate = f rate"
proof (induction tbl arbitrary: m)
  case Nil
  then show ?case by simp
next
  case (Cons e tbl)
  obtain rate' ch' where e: "e = (rate', ch')" by (cases e)
  show ?case
  proof (cases "e = (rate, ch)")
    case True
    have "(m OR f rate) AND f rate = f rate"
      by (simp add: word_ao_absorbs)
    from rates_mask_keeps [OF this, of f tbl] True show ?thesis
      by (simp add: rates_mask_def)
  next
    case False
    with Cons.prems have "(rate, ch) \<in> set tbl" by simp
    from Cons.IH [OF this, of "m OR f rate'"] show ?thesis
      by (simp add: rates_mask_def e)
  qed
qed

lemma span_of_bounds:
  "v \<in> set vs \<Longrightarrow> i_min (span_of vs) \<le> v \<and> v \<le> i_max (span_of vs)"
  by (auto simp: span_of_def)

lemma limit_loop:
  assumes "table_ok T F" and "\<forall>i\<in>set is. i < length T"
  shows "for_each (limit_body f T F) is hw =
    Some (hw\<lparr>rates := rates_mask f (nonzero_entries
                  (map (\<lambda>i. (T ! i, total_channels F (i div 2))) is)) (rates hw),
              channels_min := fold min (map snd (nonzero_entries
                  (map (\<lambda>i. (T ! i, total_channels F (i div 2))) is))) (channels_min hw),
              channels_max := fold max (map snd (nonzero_entries
                  (map (\<lambda>i. (T ! i, total_channels F (i div 2))) is))) (channels_max hw)\<rparr>)"
  using assms(2)
proof (induction "is" arbitrary: hw)
  case Nil
  then show ?case by (simp add: nonzero_entries_def rates_mask_def)
next
  case (Cons i "is")
  then have "pcm_chunks F (i div 2) = Some (total_channels F (i div 2))"
    using pcm_chunks_in_range [OF assms(1)] by simp
  with Cons show ?case
    by (simp add: limit_body_def Let_def nonzero_entries_def rates_mask_def
        min.commute max.commute)
qed

lemma limit_result:
  assumes "table_ok T F"
  shows "\<exists>lo hi. limit_channels_and_rates f lim T F hw =
    Some (hw\<lparr>rates := rates_mask f (nonzero_entries (mode_table T F)) (rates hw),
              channels_min := i_min (span_of (map snd (nonzero_entries (mode_table T F)))),
              channels_max := i_max (span_of (map snd (nonzero_entries (mode_table T F)))),
              rate_min := lo, rate_max := hi\<rparr>)"
proof -
  let ?h = "hw\<lparr>rates := rates_mask f (nonzero_entries (mode_table T F)) (rates hw),
              channels_min := i_min (span_of (map snd (nonzero_entries (mode_table T F)))),
              channels_max := i_max (span_of (map snd (nonzero_entries (mode_table T F))))\<rparr>"
  have "\<forall>i\<in>set [0..<length T]. i < length T" by simp
  from limit_loop [OF assms this, of f "hw\<lparr>channels_min := UINT_MAX, channels_max := 0\<rparr>"]
  have loop: "for_each (limit_body f T F) [0..<length T]
                (hw\<lparr>channels_min := UINT_MAX, channels_max := 0\<rparr>) = Some ?h"
    by (simp add: mode_table_def span_of_fold empty_sentinel_def)
  obtain lo hi where "lim ?h = (lo, hi)"
    by (cases "lim ?h")
  with loop have "limit_channels_and_rates f lim T F hw =
      Some (?h\<lparr>rate_min := lo, rate_max := hi\<rparr>)"
    by (simp add: limit_channels_and_rates_def)
  then show ?thesis by blast
qed

text \<open>
  C6. For every mode table whose reads are in range, \<^verbatim>\<open>limit_channels_and_rates\<close>
  returns a hardware description in which every entry of the table with a non-zero
  total channel count has its rate bit set in \<open>rates\<close> and its channel count within
  \<open>[channels_min, channels_max]\<close>. The mask is the one on entry with the bits of the
  non-zero entries set, and the channel bounds span the counts of the non-zero entries
  from the sentinel \<open>UINT_MAX\<close>, \<open>0\<close>: an entry with no channel contributes to
  neither.
\<close>

theorem initial_window_covers:
  assumes "table_ok T F"
  shows "\<exists>hw'. limit_channels_and_rates bit_of lim T F hw = Some hw' \<and>
     (\<forall>(rate, channels) \<in> set (mode_table T F). channels \<noteq> 0 \<longrightarrow>
        rates hw' AND bit_of rate = bit_of rate \<and>
        channels_min hw' \<le> channels \<and> channels \<le> channels_max hw') \<and>
     rates hw' = rates_mask bit_of (nonzero_entries (mode_table T F)) (rates hw) \<and>
     channels_min hw' = i_min (span_of (map snd (nonzero_entries (mode_table T F)))) \<and>
     channels_max hw' = i_max (span_of (map snd (nonzero_entries (mode_table T F))))"
proof -
  have "rates_mask bit_of (nonzero_entries (mode_table T F)) (rates hw) AND bit_of rate = bit_of rate
      \<and> i_min (span_of (map snd (nonzero_entries (mode_table T F)))) \<le> ch
      \<and> ch \<le> i_max (span_of (map snd (nonzero_entries (mode_table T F))))"
    if "(rate, ch) \<in> set (mode_table T F)" and "ch \<noteq> 0" for rate ch
  proof -
    from that have mem: "(rate, ch) \<in> set (nonzero_entries (mode_table T F))"
      by (simp add: nonzero_entries_def)
    then have "ch \<in> set (map snd (nonzero_entries (mode_table T F)))"
      by force
    from span_of_bounds [OF this] rates_mask_member [OF mem] show ?thesis
      by simp
  qed
  with limit_result [OF assms, of bit_of lim hw] show ?thesis
    by (elim exE) (simp, blast)
qed

theorem initial_window_covers_witness:
  "table_ok six_rates two_of_three_formats \<and>
   map_option (\<lambda>hw. (rates hw, channels_min hw, channels_max hw))
     (limit_channels_and_rates sample_rate_bit (\<lambda>hw. (44100, 96000)) six_rates
        two_of_three_formats zero_hw) = Some (0x6C0, 2, 4)"
  using initial_window_covers [of six_rates two_of_three_formats sample_rate_bit
      "\<lambda>hw. (44100, 96000)" zero_hw]
  by (auto simp: table_ok_def six_rates_def two_of_three_formats_def zero_hw_def
      sample_rate_bit_def mode_table_def total_channels_def nonzero_entries_def
      rates_mask_def span_of_def empty_sentinel_def UINT_MAX_def upt_conv_Cons)

section \<open>Properties of the handlers\<close>

text \<open>
  C3. A failed start leaves the increment in place. On an idle Dice device whose
  transport fails with \<^verbatim>\<open>-EIO\<close>, \<^verbatim>\<open>capture_open\<close> and \<^verbatim>\<open>playback_open\<close> return
  \<^verbatim>\<open>-EIO\<close> with the token released and the counter at 1, one above its value on
  entry: the counter is not restored.
\<close>

theorem failed_open_keeps_increment:
  "capture_open (\<lambda>rate. - EIO) idle_dice = (- EIO, idle_dice\<lparr>substreams_counter := 1\<rparr>) \<and>
   playback_open (\<lambda>rate. - EIO) idle_dice = (- EIO, idle_dice\<lparr>substreams_counter := 1\<rparr>)"
  by (simp add: capture_open_def playback_open_def stream_lock_try_def tryAcquire_def
      atomic_inc_def stream_start_duplex_def stream_lock_release_def release_def
      idle_dice_def EIO_def EBUSY_def)

text \<open>
  C4. When the start of the duplex stream fails with \<^verbatim>\<open>-EIO\<close>, \<^verbatim>\<open>capture_prepare\<close>
  returns 0 where \<^verbatim>\<open>playback_prepare\<close> returns \<^verbatim>\<open>-EIO\<close>; both leave the device as
  it was.
\<close>

theorem capture_prepare_drops_error:
  "capture_prepare (\<lambda>rate. - EIO) 48000 opened_motu = (0, opened_motu) \<and>
   playback_prepare (\<lambda>rate. - EIO) 48000 opened_motu = (- EIO, opened_motu)"
  by (simp add: capture_prepare_def playback_prepare_def stream_start_duplex_def
      mutex_lock_def mutex_unlock_def opened_motu_def idle_motu_def EIO_def)

lemma attempts_outstanding: "attempts n True = (replicate n Busy, True)"
  by (induction n) (simp_all add: tryAcquire_def)

lemma attempts_count: "count_list (fst (attempts n outstanding)) Token \<le> 1"
proof (cases outstanding)
  case True
  then show ?thesis by (simp add: attempts_outstanding)
next
  case False
  then show ?thesis
    by (cases n) (simp_all add: tryAcquire_def attempts_outstanding)
qed

text \<open>
  C9. The lock is try-only and exclusive. Among any number of attempts in a row, with
  no release between them, at most one obtains the token; an attempt made while the
  token is outstanding answers \<open>Busy\<close> and changes nothing; and \<^verbatim>\<open>pcm_open\<close>,
  \<^verbatim>\<open>capture_open\<close> and \<^verbatim>\<open>playback_open\<close>, called while the token is outstanding, return
  \<^verbatim>\<open>-EBUSY\<close> with the device untouched, whatever the other collaborators would
  answer.
\<close>

theorem exclusivity_lock:
  "count_list (fst (attempts n outstanding)) Token \<le> 1 \<and>
   tryAcquire True = (Busy, True) \<and>
   (token_outstanding motu \<longrightarrow> pcm_open env stream motu hw = Some (- EBUSY, motu, hw)) \<and>
   (token_outstanding dice \<longrightarrow>
      capture_open startDuplex dice = (- EBUSY, dice) \<and>
      playback_open startDuplex dice = (- EBUSY, dice))"
  using attempts_count [of n outstanding]
  by (simp add: tryAcquire_def pcm_open_def capture_open_def
      playback_open_def stream_lock_try_def EBUSY_def)

theorem exclusivity_lock_witness:
  "token_outstanding opened_motu \<and>
   pcm_open sample_env Playback opened_motu zero_hw =
     Some (- EBUSY, opened_motu, zero_hw) \<and>
   token_outstanding (snd (capture_open (\<lambda>rate. 0) idle_dice)) \<and>
   fst (capture_open (\<lambda>rate. 0) idle_dice) = 0 \<and>
   fst (playback_open (\<lambda>rate. 0) (snd (capture_open (\<lambda>rate. 0) idle_dice))) = - EBUSY \<and>
   fst (attempts 3 False) = [Token, Busy, Busy]"
proof -
  have a: "token_outstanding opened_motu"
    by (simp add: opened_motu_def)
  have b: "capture_open (\<lambda>rate. 0) idle_dice =
      (0, idle_dice\<lparr>substreams_counter := 1, token_outstanding := True, running := True\<rparr>)"
    by (simp add: capture_open_def stream_lock_try_def tryAcquire_def atomic_inc_def
      stream_start_duplex_def idle_dice_def)
  have c: "fst (attempts 3 False) = [Token, Busy, Busy]"
    by (simp add: tryAcquire_def numeral_3_eq_3)
  from exclusivity_lock [of 3 False opened_motu sample_env Playback zero_hw
      "snd (capture_open (\<lambda>rate. 0) idle_dice)" "\<lambda>rate. 0"] a b c
  show ?thesis by simp
qed








lemma init_hw_info_reads_formats:
  "init_hw_info env (m\<lparr>token_outstanding := a, mutex_locked := b\<rparr>) stream hw =
   init_hw_info env m stream hw"
  by (simp add: init_hw_info_def)

text \<open>
  C7. Let \<^verbatim>\<open>pcm_open\<close> have taken the lock, refreshed the packet formats and built
  the window \<open>window\<close> without error. If the clock source is read and is not the
  internal one, or the tx or the rx stream runs PCM, and the rate is read as \<open>rate\<close>,
  the open succeeds with the rate window \<open>[rate, rate]\<close>. If the source is internal
  and neither stream runs, the open succeeds with \<open>window\<close> unchanged. If reading the
  source fails, or reading the rate fails when it is needed, the open returns that
  error with the mutex unlocked and the token released.
\<close>

theorem clock_source_policy:
  assumes "\<not> token_outstanding motu"
    and "cache_packet_formats env = (e1, tx, rx)" and "0 \<le> e1"
    and "m1 = motu\<lparr>tx_packet_formats := tx, rx_packet_formats := rx\<rparr>"
    and "init_hw_info env m1 stream hw = Some (e2, window)" and "0 \<le> e2"
    and "get_clock_source env = (e3, src)" and "get_clock_rate env = (e4, rate)"
  shows "(0 \<le> e3 \<longrightarrow>
            src \<noteq> SND_MOTU_CLOCK_SOURCE_INTERNAL \<or> tx_pcm_running motu \<or> rx_pcm_running motu \<longrightarrow>
            0 \<le> e4 \<longrightarrow>
            pcm_open env stream motu hw =
              Some (e4, m1\<lparr>token_outstanding := True, mutex_locked := False\<rparr>,
                    window\<lparr>rate_min := rate, rate_max := rate\<rparr>)) \<and>
         (0 \<le> e3 \<longrightarrow>
            src = SND_MOTU_CLOCK_SOURCE_INTERNAL \<longrightarrow> \<not> tx_pcm_running motu \<longrightarrow>
            \<not> rx_pcm_running motu \<longrightarrow>
            pcm_open env stream motu hw =
              Some (e3, m1\<lparr>token_outstanding := True, mutex_locked := False\<rparr>, window)) \<and>
         (e3 < 0 \<longrightarrow>
            pcm_open env stream motu hw =
              Some (e3, m1\<lparr>token_outstanding := False, mutex_locked := False\<rparr>, window)) \<and>
         (0 \<le> e3 \<longrightarrow>
            src \<noteq> SND_MOTU_CLOCK_SOURCE_INTERNAL \<or> tx_pcm_running motu \<or> rx_pcm_running motu \<longrightarrow>
            e4 < 0 \<longrightarrow>
            pcm_open env stream motu hw =
              Some (e4, m1\<lparr>token_outstanding := False, mutex_locked := False\<rparr>, window))"
proof -
  have i: "init_hw_info env (m1\<lparr>token_outstanding := True, mutex_locked := True\<rparr>) stream hw
           = Some (e2, window)"
    using assms(5) by (simp only: init_hw_info_reads_formats)
  have eq: "motu\<lparr>token_outstanding := True, mutex_locked := True,
                 tx_packet_formats := tx, rx_packet_formats := rx\<rparr>
            = m1\<lparr>token_outstanding := True, mutex_locked := True\<rparr>"
    by (cases motu) (simp add: assms(4))
  have run: "tx_pcm_running m1 = tx_pcm_running motu" "rx_pcm_running m1 = rx_pcm_running motu"
    by (simp_all add: assms(4))
  show ?thesis
    using assms(1,2,3,6,7,8)
    by (simp add: pcm_open_def stream_lock_try_def tryAcquire_def err_locked_def
        mutex_lock_def mutex_unlock_def stream_lock_release_def release_def Let_def eq i run)
qed


lemma sample_facts:
  "cache_packet_formats (sample_env\<lparr>get_clock_source := (e3, src), get_clock_rate := (e4, rate)\<rparr>)
     = (0, three_mode_formats, three_mode_formats)"
  "idle_motu = idle_motu\<lparr>tx_packet_formats := three_mode_formats,
                rx_packet_formats := three_mode_formats\<rparr>"
  "init_hw_info (sample_env\<lparr>get_clock_source := (e3, src), get_clock_rate := (e4, rate)\<rparr>)
     idle_motu Capture zero_hw = Some (0, sample_window)"
  "get_clock_source (sample_env\<lparr>get_clock_source := (e3, src), get_clock_rate := (e4, rate)\<rparr>)
     = (e3, src)"
  "get_clock_rate (sample_env\<lparr>get_clock_source := (e3, src), get_clock_rate := (e4, rate)\<rparr>)
     = (e4, rate)"
  by (simp_all add: init_hw_info_def sample_env_def idle_motu_def zero_hw_def
      limit_channels_and_rates_def limit_body_def pcm_chunks_def six_rates_def
      three_mode_formats_def sample_rate_bit_def sample_window_def
      SNDRV_PCM_FMTBIT_S32_def UINT_MAX_def upt_conv_Cons)

lemma idle_free: "\<not> token_outstanding idle_motu"
  by (simp add: idle_motu_def)

theorem clock_source_policy_witness:
  "pcm_open (sample_env\<lparr>get_clock_source := (0, SND_MOTU_CLOCK_SOURCE_OTHER 1),
                        get_clock_rate := (0, 48000)\<rparr>) Capture idle_motu zero_hw =
     Some (0, idle_motu\<lparr>token_outstanding := True\<rparr>,
           sample_window\<lparr>rate_min := 48000, rate_max := 48000\<rparr>) \<and>
   pcm_open (sample_env\<lparr>get_clock_source := (0, SND_MOTU_CLOCK_SOURCE_INTERNAL),
                        get_clock_rate := (0, 48000)\<rparr>) Capture idle_motu zero_hw =
     Some (0, idle_motu\<lparr>token_outstanding := True\<rparr>, sample_window) \<and>
   pcm_open (sample_env\<lparr>get_clock_source := (- EIO, SND_MOTU_CLOCK_SOURCE_INTERNAL),
                        get_clock_rate := (0, 48000)\<rparr>) Capture idle_motu zero_hw =
     Some (- EIO, idle_motu, sample_window) \<and>
   pcm_open (sample_env\<lparr>get_clock_source := (0, SND_MOTU_CLOCK_SOURCE_OTHER 1),
                        get_clock_rate := (- EIO, 0)\<rparr>) Capture idle_motu zero_hw =
     Some (- EIO, idle_motu, sample_window)"
proof -
  note pol = clock_source_policy [OF idle_free sample_facts(1) order_refl sample_facts(2)
      sample_facts(3) order_refl sample_facts(4) sample_facts(5)]
  have idle: "\<not> tx_pcm_running idle_motu" "\<not> rx_pcm_running idle_motu"
    "idle_motu\<lparr>token_outstanding := True, mutex_locked := False\<rparr> =
     idle_motu\<lparr>token_outstanding := True\<rparr>"
    "idle_motu\<lparr>token_outstanding := False, mutex_locked := False\<rparr> = idle_motu"
    by (simp_all add: idle_motu_def)
  have neg: "- EIO < 0"
    by (simp add: EIO_def)
  from pol [where ?e3.0 = 0 and src = "SND_MOTU_CLOCK_SOURCE_OTHER 1" and ?e4.0 = 0
      and rate = 48000]
  have a: "pcm_open (sample_env\<lparr>get_clock_source := (0, SND_MOTU_CLOCK_SOURCE_OTHER 1),
                        get_clock_rate := (0, 48000)\<rparr>) Capture idle_motu zero_hw =
     Some (0, idle_motu\<lparr>token_outstanding := True\<rparr>,
           sample_window\<lparr>rate_min := 48000, rate_max := 48000\<rparr>)"
    by (simp add: idle)
  from pol [where ?e3.0 = 0 and src = "SND_MOTU_CLOCK_SOURCE_INTERNAL" and ?e4.0 = 0
      and rate = 48000]
  have b: "pcm_open (sample_env\<lparr>get_clock_source := (0, SND_MOTU_CLOCK_SOURCE_INTERNAL),
                        get_clock_rate := (0, 48000)\<rparr>) Capture idle_motu zero_hw =
     Some (0, idle_motu\<lparr>token_outstanding := True\<rparr>, sample_window)"
    by (simp add: idle)
  from pol [where ?e3.0 = "- EIO" and src = "SND_MOTU_CLOCK_SOURCE_INTERNAL" and ?e4.0 = 0
      and rate = 48000] neg
  have c: "pcm_open (sample_env\<lparr>get_clock_source := (- EIO, SND_MOTU_CLOCK_SOURCE_INTERNAL),
                        get_clock_rate := (0, 48000)\<rparr>) Capture idle_motu zero_hw =
     Some (- EIO, idle_motu, sample_window)"
    by (simp add: idle)
  from pol [where ?e3.0 = 0 and src = "SND_MOTU_CLOCK_SOURCE_OTHER 1" and ?e4.0 = "- EIO"
      and rate = 0] neg
  have d: "pcm_open (sample_env\<lparr>get_clock_source := (0, SND_MOTU_CLOCK_SOURCE_OTHER 1),
                        get_clock_rate := (- EIO, 0)\<rparr>) Capture idle_motu zero_hw =
     Some (- EIO, idle_motu, sample_window)"
    by (simp add: idle)
  from a b c d show ?thesis by simp
qed

lemma depart:
  assumes "unat (substreams_counter dev) = Suc n"
  shows "unat (substreams_counter (stream_stop_duplex (atomic_dec dev))) = n"
    and "0 < n \<Longrightarrow> running (stream_stop_duplex (atomic_dec dev)) = running dev \<and>
           transport_stops (stream_stop_duplex (atomic_dec dev)) = transport_stops dev"
    and "n = 0 \<Longrightarrow> \<not> running (stream_stop_duplex (atomic_dec dev)) \<and>
           transport_stops (stream_stop_duplex (atomic_dec dev)) = Suc (transport_stops dev)"
proof -
  from assms have nz: "substreams_counter dev \<noteq> 0"
    by (auto simp: unat_eq_0)
  then have u: "unat (substreams_counter dev - 1) = n"
    using assms by (simp add: unat_minus_one)
  have "substreams_counter dev = 1 \<longleftrightarrow> unat (substreams_counter dev) = Suc 0"
    by (simp add: word_unat_eq_iff)
  with assms have z: "substreams_counter dev = 1 \<longleftrightarrow> n = 0"
    by simp
  have "substreams_counter (stream_stop_duplex (atomic_dec dev)) = substreams_counter dev - 1"
    by (simp add: stream_stop_duplex_def atomic_dec_def)
  with u show "unat (substreams_counter (stream_stop_duplex (atomic_dec dev))) = n"
    by simp
  from z show "0 < n \<Longrightarrow> running (stream_stop_duplex (atomic_dec dev)) = running dev \<and>
           transport_stops (stream_stop_duplex (atomic_dec dev)) = transport_stops dev"
    by (simp add: stream_stop_duplex_def atomic_dec_def)
  from z show "n = 0 \<Longrightarrow> \<not> running (stream_stop_duplex (atomic_dec dev)) \<and>
           transport_stops (stream_stop_duplex (atomic_dec dev)) = Suc (transport_stops dev)"
    by (simp add: stream_stop_duplex_def atomic_dec_def)
qed

lemma midi_close_order:
  "snd (capture_close dice) = stream_lock_release (stream_stop_duplex (atomic_dec dice))"
  "snd (playback_close dice) = stream_lock_release (stream_stop_duplex (atomic_dec dice))"
  by (simp_all add: capture_close_def playback_close_def)

lemma hw_free_order:
  "snd (hw_free_call d freed st motu) =
     (if st \<noteq> SNDRV_PCM_STATE_OPEN
      then mutex_unlock (stream_stop_duplex (atomic_dec (mutex_lock motu)))
      else mutex_unlock (stream_stop_duplex (mutex_lock motu)))"
  by (cases d) (simp_all add: hw_free_call_def capture_hw_free_def playback_hw_free_def)

lemma lock_release_frame:
  "substreams_counter (stream_lock_release dev) = substreams_counter dev"
  "running (stream_lock_release dev) = running dev"
  "transport_stops (stream_lock_release dev) = transport_stops dev"
  by (simp_all add: stream_lock_release_def)

lemma mutex_frame:
  "substreams_counter (mutex_unlock m) = substreams_counter m"
  "running (mutex_unlock m) = running m"
  "transport_stops (mutex_unlock m) = transport_stops m"
  "substreams_counter (mutex_lock m) = substreams_counter m"
  "running (mutex_lock m) = running m"
  "transport_stops (mutex_lock m) = transport_stops m"
  by (simp_all add: mutex_lock_def mutex_unlock_def)

lemma midi_closes_run:
  "unat (substreams_counter dice) = N \<Longrightarrow> length ds \<le> N \<Longrightarrow>
   unat (substreams_counter (midi_closes ds dice)) = N - length ds \<and>
   (length ds < N \<longrightarrow>
      running (midi_closes ds dice) = running dice \<and>
      transport_stops (midi_closes ds dice) = transport_stops dice) \<and>
   (0 < N \<longrightarrow> length ds = N \<longrightarrow>
      \<not> running (midi_closes ds dice) \<and>
      transport_stops (midi_closes ds dice) = Suc (transport_stops dice))"
proof (induction ds arbitrary: dice N)
  case Nil
  then show ?case by simp
next
  case (Cons d ds)
  then obtain n where N: "N = Suc n" and len: "length ds \<le> n"
    by (cases N) auto
  let ?dice = "stream_lock_release (stream_stop_duplex (atomic_dec dice))"
  have step: "midi_closes (d # ds) dice = midi_closes ds ?dice"
    by (cases d) (simp_all add: midi_close_order)
  from Cons.prems(1) N have c: "unat (substreams_counter dice) = Suc n" by simp
  have u: "unat (substreams_counter ?dice) = n"
    by (simp add: lock_release_frame depart(1) [OF c])
  note IH = Cons.IH [OF u len]
  show ?case
  proof (cases n)
    case 0
    with len have "ds = []" by simp
    with 0 N depart(3) [OF c] u show ?thesis
      unfolding step by (simp add: lock_release_frame)
  next
    case (Suc k)
    then have "0 < n" by simp
    from depart(2) [OF c this] IH N Suc show ?thesis
      unfolding step by (simp add: lock_release_frame)
  qed
qed

lemma hw_frees_run:
  "unat (substreams_counter motu) = N \<Longrightarrow> length fs \<le> N \<Longrightarrow>
   \<forall>(d, freed, st) \<in> set fs. st \<noteq> SNDRV_PCM_STATE_OPEN \<Longrightarrow>
   unat (substreams_counter (hw_frees fs motu)) = N - length fs \<and>
   (length fs < N \<longrightarrow>
      running (hw_frees fs motu) = running motu \<and>
      transport_stops (hw_frees fs motu) = transport_stops motu) \<and>
   (0 < N \<longrightarrow> length fs = N \<longrightarrow>
      \<not> running (hw_frees fs motu) \<and>
      transport_stops (hw_frees fs motu) = Suc (transport_stops motu))"
proof (induction fs arbitrary: motu N)
  case Nil
  then show ?case by simp
next
  case (Cons f fs)
  then obtain n where N: "N = Suc n" and len: "length fs \<le> n"
    by (cases N) auto
  obtain d freed st where f: "f = (d, freed, st)" by (cases f)
  with Cons.prems(3) have st: "st \<noteq> SNDRV_PCM_STATE_OPEN"
    and rest: "\<forall>(d, freed, st) \<in> set fs. st \<noteq> SNDRV_PCM_STATE_OPEN"
    by simp_all
  let ?motu = "mutex_unlock (stream_stop_duplex (atomic_dec (mutex_lock motu)))"
  have step: "hw_frees (f # fs) motu = hw_frees fs ?motu"
    using st by (simp add: f hw_free_order)
  from Cons.prems(1) N have c: "unat (substreams_counter (mutex_lock motu)) = Suc n"
    by (simp add: mutex_frame)
  have u: "unat (substreams_counter ?motu) = n"
    by (simp add: mutex_frame(1) depart(1) [OF c])
  note IH = Cons.IH [OF u len rest]
  show ?case
  proof (cases n)
    case 0
    with len have "fs = []" by simp
    with 0 N depart(3) [OF c] u show ?thesis
      unfolding step by (simp add: mutex_frame)
  next
    case (Suc k)
    then have "0 < n" by simp
    from depart(2) [OF c this] IH N Suc show ?thesis
      unfolding step by (simp add: mutex_frame)
  qed
qed

lemma stop_keeps_running:
  "substreams_counter dev \<noteq> 0 \<Longrightarrow> stream_stop_duplex dev = dev"
  by (simp add: stream_stop_duplex_def)

text \<open>
  C8, as stated, fails on the hw_free path: called in state OPEN on a device with one
  substream counted, \<^verbatim>\<open>capture_hw_free\<close> invokes the stop operation on the counter
  as it found it, and the counter still has its entry value 1 on return.
\<close>

theorem hw_free_open_skips_decrement:
  "snd (capture_hw_free 0 SNDRV_PCM_STATE_OPEN streaming_motu) =
     mutex_unlock (snd_motu_stream_stop_duplex (mutex_lock streaming_motu)) \<and>
   substreams_counter (snd (capture_hw_free 0 SNDRV_PCM_STATE_OPEN streaming_motu)) =
     substreams_counter streaming_motu \<and>
   substreams_counter streaming_motu = 1"
  by (simp add: capture_hw_free_def mutex_lock_def mutex_unlock_def stream_stop_duplex_def
      streaming_motu_def opened_motu_def idle_motu_def)

text \<open>
  C8, amended. \<^verbatim>\<open>capture_close\<close> and \<^verbatim>\<open>playback_close\<close> of the Dice MIDI code, and
  the MOTU hw_free handlers called outside state OPEN, invoke the stop operation on the
  device with the counter already decremented; a hw_free called in state OPEN invokes
  it without a decrement. The stop operation leaves a device with a non-zero counter
  as it is. With the counter at \<open>N\<close>, fewer than \<open>N\<close> such closes leave \<open>running\<close>
  as it was and tell the transport nothing, and the \<open>N\<close>-th, which takes the counter
  to zero, clears \<open>running\<close> and tells the transport to stop once.
\<close>

theorem close_decrements_then_stops:
  "snd (capture_close dice) =
     snd_dice_stream_lock_release (snd_dice_stream_stop_duplex (atomic_dec dice)) \<and>
   snd (playback_close dice) =
     snd_dice_stream_lock_release (snd_dice_stream_stop_duplex (atomic_dec dice)) \<and>
   snd (hw_free_call d freed st motu) =
     (if st \<noteq> SNDRV_PCM_STATE_OPEN
      then mutex_unlock (snd_motu_stream_stop_duplex (atomic_dec (mutex_lock motu)))
      else mutex_unlock (snd_motu_stream_stop_duplex (mutex_lock motu))) \<and>
   (substreams_counter motu \<noteq> 0 \<longrightarrow> snd_motu_stream_stop_duplex motu = motu) \<and>
   (substreams_counter dice \<noteq> 0 \<longrightarrow> snd_dice_stream_stop_duplex dice = dice) \<and>
   (unat (substreams_counter dice) = N \<longrightarrow> length ds \<le> N \<longrightarrow>
      unat (substreams_counter (midi_closes ds dice)) = N - length ds \<and>
      (length ds < N \<longrightarrow>
         running (midi_closes ds dice) = running dice \<and>
         transport_stops (midi_closes ds dice) = transport_stops dice) \<and>
      (0 < N \<longrightarrow> length ds = N \<longrightarrow>
         \<not> running (midi_closes ds dice) \<and>
         transport_stops (midi_closes ds dice) = Suc (transport_stops dice))) \<and>
   (unat (substreams_counter motu) = N \<longrightarrow> length fs \<le> N \<longrightarrow>
    (\<forall>(d, freed, st) \<in> set fs. st \<noteq> SNDRV_PCM_STATE_OPEN) \<longrightarrow>
      unat (substreams_counter (hw_frees fs motu)) = N - length fs \<and>
      (length fs < N \<longrightarrow>
         running (hw_frees fs motu) = running motu \<and>
         transport_stops (hw_frees fs motu) = transport_stops motu) \<and>
      (0 < N \<longrightarrow> length fs = N \<longrightarrow>
         \<not> running (hw_frees fs motu) \<and>
         transport_stops (hw_frees fs motu) = Suc (transport_stops motu)))"
  using midi_closes_run [of dice N ds] hw_frees_run [of motu N fs]
    hw_free_order [of d freed st motu] stop_keeps_running [of motu]
    stop_keeps_running [of dice]
  by (simp only: midi_close_order) blast

theorem close_decrements_then_stops_witness:
  "running (midi_closes [Capture] two_counted_dice) \<and>
   transport_stops (midi_closes [Capture] two_counted_dice) = 0 \<and>
   \<not> running (midi_closes [Capture, Playback] two_counted_dice) \<and>
   transport_stops (midi_closes [Capture, Playback] two_counted_dice) = 1 \<and>
   running (hw_frees [(Playback, 0, SNDRV_PCM_STATE_SETUP)] two_counted_motu) \<and>
   \<not> running (hw_frees [(Playback, 0, SNDRV_PCM_STATE_SETUP),
                          (Capture, 0, SNDRV_PCM_STATE_PREPARED)] two_counted_motu) \<and>
   transport_stops (hw_frees [(Playback, 0, SNDRV_PCM_STATE_SETUP),
                          (Capture, 0, SNDRV_PCM_STATE_PREPARED)] two_counted_motu) = 1"
proof -
  have d: "unat (substreams_counter two_counted_dice) = 2" "running two_counted_dice"
    "transport_stops two_counted_dice = 0"
    by (simp_all add: two_counted_dice_def)
  have m: "unat (substreams_counter two_counted_motu) = 2" "running two_counted_motu"
    "transport_stops two_counted_motu = 0"
    by (simp_all add: two_counted_motu_def streaming_motu_def opened_motu_def idle_motu_def)
  from close_decrements_then_stops [where dice = two_counted_dice and N = 2
      and ds = "[Capture]" and motu = two_counted_motu
      and fs = "[(Playback, 0, SNDRV_PCM_STATE_SETUP)]"
      and d = Capture and freed = 0 and st = SNDRV_PCM_STATE_SETUP] d m
  have one: "running (midi_closes [Capture] two_counted_dice) \<and>
      transport_stops (midi_closes [Capture] two_counted_dice) = 0 \<and>
      running (hw_frees [(Playback, 0, SNDRV_PCM_STATE_SETUP)] two_counted_motu)"
    by (simp del: midi_closes.simps hw_frees.simps)
  from close_decrements_then_stops [where dice = two_counted_dice and N = 2
      and ds = "[Capture, Playback]" and motu = two_counted_motu
      and fs = "[(Playback, 0, SNDRV_PCM_STATE_SETUP), (Capture, 0, SNDRV_PCM_STATE_PREPARED)]"
      and d = Capture and freed = 0 and st = SNDRV_PCM_STATE_SETUP] d m
  have two: "\<not> running (midi_closes [Capture, Playback] two_counted_dice) \<and>
      transport_stops (midi_closes [Capture, Playback] two_counted_dice) = 1 \<and>
      \<not> running (hw_frees [(Playback, 0, SNDRV_PCM_STATE_SETUP),
                          (Capture, 0, SNDRV_PCM_STATE_PREPARED)] two_counted_motu) \<and>
      transport_stops (hw_frees [(Playback, 0, SNDRV_PCM_STATE_SETUP),
                          (Capture, 0, SNDRV_PCM_STATE_PREPARED)] two_counted_motu) = 1"
    by (simp del: midi_closes.simps hw_frees.simps)
  from one two show ?thesis by blast
qed

end
